theory Spec2Isabelle
  imports Complex_Main "HOL-Library.Multiset"
begin

section \<open>Configuration model (package config)\<close>

text \<open>
  Go pointers to structs are options (\<open>None\<close> is \<open>nil\<close>), Go maps are partial
  functions, and a nil map is \<open>None\<close>. The values of a \<open>map[string]interface{}\<close> are
  the scalars a YAML or JSON file can hold.
\<close>

datatype any_value = VNil | VBool bool | VInt int | VStr string

record SamplerConfig =
  sampler_Kind :: string
  sampler_Root :: string
  sampler_Ratio :: real
  sampler_IgnoreIncomingPaths :: "string list"

record ExporterConfig =
  exporter_Module :: string
  exporter_Class :: string
  exporter_Config :: "(string \<rightharpoonup> any_value) option"

record MetricsExportConfig =
  ExportIntervalMillis :: int

record TracingConfig =
  tracing_Enabled :: bool
  tracing_Sampler :: "SamplerConfig option"
  tracing_Exporter :: "ExporterConfig option"
  tracing_HRTime :: bool
  tracing_TxEnabled :: bool
  tracing_HanaPrompt :: bool

record MetricsConfig =
  metrics_Enabled :: bool
  metrics_Exporter :: "ExporterConfig option"
  metrics_Config :: "MetricsExportConfig option"
  metrics_DBPool :: bool
  metrics_Queue :: bool
  metrics_HostMetrics :: bool
  metrics_RuntimeMetrics :: bool

record LoggingConfig =
  logging_Enabled :: bool
  logging_Exporter :: "ExporterConfig option"

record InstrumentationConfig =
  instr_Module :: string
  instr_Class :: string
  instr_Config :: "(string \<rightharpoonup> any_value) option"
  instr_Enabled :: bool

record Config =
  Disabled :: bool
  ServiceName :: string
  Kind :: string
  Tracing :: "TracingConfig option"
  Metrics :: "MetricsConfig option"
  Logging :: "LoggingConfig option"
  Instrumentations :: "string \<rightharpoonup> InstrumentationConfig"

record VCAPConfig =
  vcap_Label :: string

record PredefinedKind =
  pk_Name :: string
  pk_Tracing :: "TracingConfig option"
  pk_Metrics :: "MetricsConfig option"
  pk_Logging :: "LoggingConfig option"
  pk_VCAP :: "VCAPConfig option"
  pk_TokenName :: string

subsection \<open>Queries\<close>

definition IsEnabled :: "Config \<Rightarrow> bool" where
  "IsEnabled c = (\<not> Disabled c)"

definition IsTracingEnabled :: "Config \<Rightarrow> bool" where
  "IsTracingEnabled c =
     (IsEnabled c \<and> (case Tracing c of None \<Rightarrow> False | Some t \<Rightarrow> tracing_Enabled t))"

definition IsMetricsEnabled :: "Config \<Rightarrow> bool" where
  "IsMetricsEnabled c =
     (IsEnabled c \<and> (case Metrics c of None \<Rightarrow> False | Some m \<Rightarrow> metrics_Enabled m))"

definition IsLoggingEnabled :: "Config \<Rightarrow> bool" where
  "IsLoggingEnabled c =
     (IsEnabled c \<and> (case Logging c of None \<Rightarrow> False | Some l \<Rightarrow> logging_Enabled l))"

subsection \<open>The preset catalog\<close>

text \<open>
  A struct literal leaves the fields it does not name at their zero value: \<open>false\<close>,
  the empty string, \<open>nil\<close>.
\<close>

definition preset_exporter :: "string \<Rightarrow> string \<Rightarrow> ExporterConfig" where
  "preset_exporter m c =
     \<lparr>exporter_Module = m, exporter_Class = c, exporter_Config = None\<rparr>"

definition preset_tracing :: "string \<Rightarrow> string \<Rightarrow> TracingConfig" where
  "preset_tracing m c =
     \<lparr>tracing_Enabled = True, tracing_Sampler = None,
      tracing_Exporter = Some (preset_exporter m c),
      tracing_HRTime = False, tracing_TxEnabled = False, tracing_HanaPrompt = False\<rparr>"

definition preset_metrics :: "string \<Rightarrow> string \<Rightarrow> MetricsConfig" where
  "preset_metrics m c =
     \<lparr>metrics_Enabled = True, metrics_Exporter = Some (preset_exporter m c),
      metrics_Config = None, metrics_DBPool = False, metrics_Queue = False,
      metrics_HostMetrics = False, metrics_RuntimeMetrics = False\<rparr>"

definition predefined_kinds :: "(string \<times> PredefinedKind) list" where
  "predefined_kinds =
     [(''telemetry-to-console'',
       \<lparr>pk_Name = ''telemetry-to-console'',
        pk_Tracing = Some (preset_tracing ''console'' ''ConsoleSpanExporter''),
        pk_Metrics = Some (preset_metrics ''console'' ''ConsoleMetricExporter''),
        pk_Logging = None, pk_VCAP = None, pk_TokenName = []\<rparr>),
      (''telemetry-to-dynatrace'',
       \<lparr>pk_Name = ''telemetry-to-dynatrace'',
        pk_Tracing = Some (preset_tracing ''otlp'' ''OTLPTraceExporter''),
        pk_Metrics = Some (preset_metrics ''otlp'' ''OTLPMetricExporter''),
        pk_Logging = None, pk_VCAP = Some \<lparr>vcap_Label = ''dynatrace''\<rparr>,
        pk_TokenName = ''ingest_apitoken''\<rparr>),
      (''telemetry-to-cloud-logging'',
       \<lparr>pk_Name = ''telemetry-to-cloud-logging'',
        pk_Tracing = Some (preset_tracing ''otlp-grpc'' ''OTLPTraceExporter''),
        pk_Metrics = Some (preset_metrics ''otlp-grpc'' ''OTLPMetricExporter''),
        pk_Logging = None, pk_VCAP = Some \<lparr>vcap_Label = ''cloud-logging''\<rparr>,
        pk_TokenName = []\<rparr>),
      (''telemetry-to-jaeger'',
       \<lparr>pk_Name = ''telemetry-to-jaeger'',
        pk_Tracing = Some (preset_tracing ''jaeger'' ''JaegerExporter''),
        pk_Metrics = None,
        pk_Logging = None, pk_VCAP = None, pk_TokenName = []\<rparr>),
      (''telemetry-to-otlp'',
       \<lparr>pk_Name = ''telemetry-to-otlp'',
        pk_Tracing = Some (preset_tracing ''otlp-env'' ''OTLPTraceExporter''),
        pk_Metrics = Some (preset_metrics ''otlp-env'' ''OTLPMetricExporter''),
        pk_Logging = None, pk_VCAP = None, pk_TokenName = []\<rparr>)]"

definition GetPredefinedKinds :: "string \<rightharpoonup> PredefinedKind" where
  "GetPredefinedKinds = map_of predefined_kinds"

subsection \<open>Applying a preset\<close>

datatype config_error = UnknownPredefinedKind string

text \<open>
  Each of the three blocks of \<open>applyPredefinedKind\<close> is the same two-armed
  conditional; the assignment to the exporter field goes through the pointer the
  configuration holds, so it updates the block in place.
\<close>

definition merge_tracing ::
  "TracingConfig option \<Rightarrow> TracingConfig option \<Rightarrow> TracingConfig option" where
  "merge_tracing user preset =
     (case (user, preset) of
        (None, Some p) \<Rightarrow> Some p
      | (Some t, Some p) \<Rightarrow>
          (if tracing_Exporter t = None
           then Some (t\<lparr>tracing_Exporter := tracing_Exporter p\<rparr>) else Some t)
      | (u, None) \<Rightarrow> u)"

definition merge_metrics ::
  "MetricsConfig option \<Rightarrow> MetricsConfig option \<Rightarrow> MetricsConfig option" where
  "merge_metrics user preset =
     (case (user, preset) of
        (None, Some p) \<Rightarrow> Some p
      | (Some m, Some p) \<Rightarrow>
          (if metrics_Exporter m = None
           then Some (m\<lparr>metrics_Exporter := metrics_Exporter p\<rparr>) else Some m)
      | (u, None) \<Rightarrow> u)"

definition merge_logging ::
  "LoggingConfig option \<Rightarrow> LoggingConfig option \<Rightarrow> LoggingConfig option" where
  "merge_logging user preset =
     (case (user, preset) of
        (None, Some p) \<Rightarrow> Some p
      | (Some l, Some p) \<Rightarrow>
          (if logging_Exporter l = None
           then Some (l\<lparr>logging_Exporter := logging_Exporter p\<rparr>) else Some l)
      | (u, None) \<Rightarrow> u)"

definition applyPredefinedKind :: "Config \<Rightarrow> config_error + Config" where
  "applyPredefinedKind config =
     (case GetPredefinedKinds (Kind config) of
        None \<Rightarrow> Inl (UnknownPredefinedKind (Kind config))
      | Some predefined \<Rightarrow>
          Inr (config\<lparr>Tracing := merge_tracing (Tracing config) (pk_Tracing predefined),
                     Metrics := merge_metrics (Metrics config) (pk_Metrics predefined),
                     Logging := merge_logging (Logging config) (pk_Logging predefined)\<rparr>))"

definition example_config :: Config where
  "example_config =
     \<lparr>Disabled = False, ServiceName = ''svc'', Kind = ''telemetry-to-console'',
      Tracing = Some \<lparr>tracing_Enabled = True,
                      tracing_Sampler =
                        Some \<lparr>sampler_Kind = ''AlwaysOffSampler'', sampler_Root = [],
                              sampler_Ratio = 0,
                              sampler_IgnoreIncomingPaths = [''/health'']\<rparr>,
                      tracing_Exporter = None, tracing_HRTime = True,
                      tracing_TxEnabled = False, tracing_HanaPrompt = True\<rparr>,
      Metrics = None,
      Logging = Some \<lparr>logging_Enabled = True, logging_Exporter = None\<rparr>,
      Instrumentations = Map.empty\<rparr>"

section \<open>Sampler factory (createSampler)\<close>

text \<open>
  The samplers of the OpenTelemetry SDK are kept as the constructors the code calls:
  \<open>ParentBased root\<close> is the SDK's sampler that follows the parent span's decision
  when there is a parent and asks \<open>root\<close> otherwise. A \<open>float64\<close> is a real here
  (no NaN), compared as the code compares it.
\<close>

datatype Sampler =
    AlwaysSample
  | NeverSample
  | TraceIDRatioBased real
  | ParentBased Sampler

definition createSampler :: "SamplerConfig option \<Rightarrow> Sampler" where
  "createSampler samplerConfig =
     (case samplerConfig of
        None \<Rightarrow> AlwaysSample
      | Some sc \<Rightarrow>
          if sampler_Kind sc = ''AlwaysOnSampler'' then AlwaysSample
          else if sampler_Kind sc = ''AlwaysOffSampler'' then NeverSample
          else if sampler_Kind sc = ''TraceIdRatioBasedSampler'' then
            TraceIDRatioBased (if sampler_Ratio sc \<le> 0 then 1 else sampler_Ratio sc)
          else if sampler_Kind sc = ''ParentBasedSampler'' then
            ParentBased
              (if sampler_Root sc = ''AlwaysOnSampler'' then AlwaysSample
               else if sampler_Root sc = ''AlwaysOffSampler'' then NeverSample
               else AlwaysSample)
          else AlwaysSample)"

definition ratio_rooted :: SamplerConfig where
  "ratio_rooted =
     \<lparr>sampler_Kind = ''ParentBasedSampler'', sampler_Root = ''TraceIdRatioBasedSampler'',
      sampler_Ratio = 1 / 4, sampler_IgnoreIncomingPaths = []\<rparr>"

section \<open>Environment parsing (getEnvString, getEnvBool)\<close>

text \<open>
  The process environment is a map from names to values. \<open>os.Getenv\<close> returns the
  empty string both for a variable that is unset and for one set to the empty string.
  \<open>strings.ToLower\<close> is modelled on the ASCII letters, the only ones that can
  lower-case to a letter of \<open>false\<close>.
\<close>

type_synonym environ = "string \<rightharpoonup> string"

definition Getenv :: "environ \<Rightarrow> string \<Rightarrow> string" where
  "Getenv env key = (case env key of None \<Rightarrow> [] | Some v \<Rightarrow> v)"

definition lower_char :: "char \<Rightarrow> char" where
  "lower_char c =
     (case map_of (zip ''ABCDEFGHIJKLMNOPQRSTUVWXYZ'' ''abcdefghijklmnopqrstuvwxyz'') c of
        None \<Rightarrow> c
      | Some l \<Rightarrow> l)"

definition ToLower :: "string \<Rightarrow> string" where
  "ToLower s = map lower_char s"

definition getEnvString :: "environ \<Rightarrow> string \<Rightarrow> string \<Rightarrow> string" where
  "getEnvString env key defaultValue =
     (let v = Getenv env key in if v \<noteq> [] then v else defaultValue)"

definition getEnvBool :: "environ \<Rightarrow> string \<Rightarrow> bool \<Rightarrow> bool" where
  "getEnvBool env key defaultValue =
     (let v = Getenv env key in
      if v \<noteq> [] then
        (let l = ToLower v in
         if l = ''false'' \<or> l = ''0'' \<or> l = [] then False else True)
      else defaultValue)"

section \<open>Console output\<close>

text \<open>
  The colour functions of \<open>github.com/fatih/color\<close> and the rendering of a
  \<open>float64\<close> under \<open>%.3f\<close> belong to libraries; the renderers take them as the
  two fields of a \<open>printer\<close>. \<open>paint attrs s\<close> stands for
  \<open>color.New(attrs...).SprintFunc()(s)\<close>.
\<close>

datatype color_attr = FgRed | FgGreen | FgYellow | FgMagenta | FgCyan | FgHiBlack | Bold

record printer =
  paint :: "color_attr list \<Rightarrow> string \<Rightarrow> string"
  fmt3 :: "real \<Rightarrow> string"

definition plain :: printer where
  "plain = \<lparr>paint = (\<lambda>attrs s. s), fmt3 = (\<lambda>x. ''?'')\<rparr>"

definition nl :: string where
  "nl = [CHR 0x0A]"

subsection \<open>Severity labels (defaultLogFormatter.formatSeverity)\<close>

text \<open>
  \<open>log.Severity\<close> is an \<open>int\<close>, and the five levels the switch compares against
  are constants of the OpenTelemetry log API; they are the fields of \<open>levels\<close>.
  \<open>otel_levels\<close> holds the values the API gives them.
\<close>

record levels =
  SeverityDebug :: int
  SeverityInfo :: int
  SeverityWarn :: int
  SeverityError :: int
  SeverityFatal :: int

definition otel_levels :: levels where
  "otel_levels =
     \<lparr>SeverityDebug = 5, SeverityInfo = 9, SeverityWarn = 13, SeverityError = 17,
      SeverityFatal = 21\<rparr>"

definition ordered_levels :: "levels \<Rightarrow> bool" where
  "ordered_levels L =
     (SeverityDebug L < SeverityInfo L \<and> SeverityInfo L < SeverityWarn L
      \<and> SeverityWarn L < SeverityError L \<and> SeverityError L < SeverityFatal L)"

text \<open>The labels start with an emoji, written as its UTF-8 bytes.\<close>

definition label_FATAL :: string where
  "label_FATAL = [CHR 0xF0, CHR 0x9F, CHR 0x92, CHR 0x80] @ '' FATAL  ''"

definition label_ERROR :: string where
  "label_ERROR = [CHR 0xE2, CHR 0x9D, CHR 0x8C] @ '' ERROR  ''"

definition label_WARN :: string where
  "label_WARN = [CHR 0xE2, CHR 0x9A, CHR 0xA0, CHR 0xEF, CHR 0xB8, CHR 0x8F] @ ''  WARN   ''"

definition label_INFO :: string where
  "label_INFO = [CHR 0xE2, CHR 0x84, CHR 0xB9, CHR 0xEF, CHR 0xB8, CHR 0x8F] @ ''  INFO   ''"

definition label_DEBUG :: string where
  "label_DEBUG = [CHR 0xF0, CHR 0x9F, CHR 0x90, CHR 0x9B] @ '' DEBUG  ''"

definition label_TRACE :: string where
  "label_TRACE = [CHR 0xF0, CHR 0x9F, CHR 0x93, CHR 0x9D] @ '' TRACE  ''"

definition formatSeverity :: "printer \<Rightarrow> levels \<Rightarrow> int \<Rightarrow> string" where
  "formatSeverity P L severity =
     (if severity \<ge> SeverityFatal L then paint P [FgRed, Bold] label_FATAL
      else if severity \<ge> SeverityError L then paint P [FgRed, Bold] label_ERROR
      else if severity \<ge> SeverityWarn L then paint P [FgYellow, Bold] label_WARN
      else if severity \<ge> SeverityInfo L then paint P [FgCyan, Bold] label_INFO
      else if severity \<ge> SeverityDebug L then paint P [FgHiBlack] label_DEBUG
      else paint P [FgMagenta] label_TRACE)"

subsection \<open>Metric records\<close>

text \<open>
  The records the OpenTelemetry SDK hands to the exporter. An attribute set is the
  slice \<open>ToSlice\<close> returns; \<open>AsString\<close> is the string of a string-valued
  attribute and the empty string for every other type. A metric's \<open>Data\<close> is an
  interface value: one of the six aggregations the renderer's type switches name, or
  anything else (nil, an exponential histogram, a summary), which is \<open>OtherData\<close>.
  Of a data point only the fields the renderer reads are kept. An \<open>int64\<close> value is
  an \<open>int\<close> and a \<open>uint64\<close> count a \<open>nat\<close>: the renderer prints them and
  computes nothing with them.
\<close>

datatype attr_value = AString string | AInt int | AFloat real | ABool bool

definition AsString :: "attr_value \<Rightarrow> string" where
  "AsString v = (case v of AString s \<Rightarrow> s | _ \<Rightarrow> [])"

record 'n DataPoint =
  dp_Attributes :: "(string \<times> attr_value) list"
  dp_Value :: 'n

record HistogramDataPoint =
  hp_Attributes :: "(string \<times> attr_value) list"
  hp_Count :: nat

datatype Aggregation =
    GaugeInt "int DataPoint list"
  | GaugeFloat "real DataPoint list"
  | SumInt "int DataPoint list"
  | SumFloat "real DataPoint list"
  | HistogramInt "HistogramDataPoint list"
  | HistogramFloat "HistogramDataPoint list"
  | OtherData

record Metrics =
  metric_Name :: string
  metric_Data :: Aggregation

text \<open>\<open>ResourceMetrics\<close>: the scopes, each with its metrics; the pointer may be nil.\<close>

type_synonym ResourceMetrics = "Metrics list list"

subsection \<open>Formatting verbs\<close>

fun show_nat :: "nat \<Rightarrow> string" where
  "show_nat n =
     (if n < 10 then [''0123456789'' ! n]
      else show_nat (n div 10) @ [''0123456789'' ! (n mod 10)])"

declare show_nat.simps [simp del]

definition show_int :: "int \<Rightarrow> string" where
  "show_int i = (if i < 0 then ''-'' @ show_nat (nat (- i)) else show_nat (nat i))"

text \<open>\<open>%4s\<close>: padded with spaces on the left to four characters.\<close>

definition pad4 :: "string \<Rightarrow> string" where
  "pad4 s = replicate (4 - length s) CHR '' '' @ s"

definition HasPrefix :: "string \<Rightarrow> string \<Rightarrow> bool" where
  "HasPrefix s p = (take (length p) s = p)"

subsection \<open>Metric renderer (defaultMetricFormatter)\<close>

text \<open>
  The \<open>strings.Builder\<close> is the string written so far; each function takes it and
  returns it extended. An index out of range is a run-time panic.
\<close>

datatype panic = IndexOutOfRange nat nat

definition cpu_attr ::
  "real \<Rightarrow> real \<times> real \<Rightarrow> string \<times> attr_value \<Rightarrow> real \<times> real" where
  "cpu_attr v ut attr =
     (if fst attr = ''state'' then
        (if AsString (snd attr) = ''user'' then (v, snd ut)
         else if AsString (snd attr) = ''system'' then (fst ut, v)
         else ut)
      else ut)"

definition formatCPUTime :: "printer \<Rightarrow> string \<Rightarrow> Metrics \<Rightarrow> string" where
  "formatCPUTime P builder m =
     (case metric_Data m of
        SumFloat dps \<Rightarrow>
          (let ut =
                 foldl (\<lambda>acc dp. foldl (cpu_attr (dp_Value dp)) acc (dp_Attributes dp))
                   (0, 0) dps
           in builder @ ''  Process Cpu time in seconds: { user: '' @ fmt3 P (fst ut)
                @ '', system: '' @ fmt3 P (snd ut) @ '' }'' @ nl)
      | _ \<Rightarrow> builder)"

definition formatMemoryUsage :: "printer \<Rightarrow> string \<Rightarrow> Metrics \<Rightarrow> string" where
  "formatMemoryUsage P builder m =
     (case metric_Data m of
        GaugeInt dps \<Rightarrow>
          foldl (\<lambda>b dp. b @ ''  Process Memory usage in bytes: '' @ show_int (dp_Value dp) @ nl)
            builder dps
      | _ \<Rightarrow> builder)"

definition formatGCCount :: "printer \<Rightarrow> string \<Rightarrow> Metrics \<Rightarrow> string" where
  "formatGCCount P builder m =
     (case metric_Data m of
        SumInt dps \<Rightarrow>
          foldl (\<lambda>b dp. b @ ''  Runtime GC count: '' @ show_int (dp_Value dp) @ nl) builder dps
      | _ \<Rightarrow> builder)"

definition first_count :: "HistogramDataPoint list \<Rightarrow> panic + nat" where
  "first_count dps = (case dps of [] \<Rightarrow> Inl (IndexOutOfRange 0 0) | dp # _ \<Rightarrow> Inr (hp_Count dp))"

definition formatGenericMetric :: "printer \<Rightarrow> string \<Rightarrow> Metrics \<Rightarrow> panic + string" where
  "formatGenericMetric P builder m =
     (let b = builder @ ''  '' @ metric_Name m @ '': '' in
      case metric_Data m of
        GaugeInt dps \<Rightarrow> Inr (foldl (\<lambda>b dp. b @ show_int (dp_Value dp) @ '' '') b dps @ nl)
      | GaugeFloat dps \<Rightarrow> Inr (foldl (\<lambda>b dp. b @ fmt3 P (dp_Value dp) @ '' '') b dps @ nl)
      | SumInt dps \<Rightarrow> Inr (foldl (\<lambda>b dp. b @ show_int (dp_Value dp) @ '' '') b dps @ nl)
      | SumFloat dps \<Rightarrow> Inr (foldl (\<lambda>b dp. b @ fmt3 P (dp_Value dp) @ '' '') b dps @ nl)
      | HistogramInt dps \<Rightarrow>
          (case first_count dps of
             Inl e \<Rightarrow> Inl e
           | Inr c \<Rightarrow> Inr (b @ ''count: '' @ show_nat c @ '' '' @ nl))
      | HistogramFloat dps \<Rightarrow>
          (case first_count dps of
             Inl e \<Rightarrow> Inl e
           | Inr c \<Rightarrow> Inr (b @ ''count: '' @ show_nat c @ '' '' @ nl))
      | OtherData \<Rightarrow> Inr (b @ nl))"

fun formatHostMetrics :: "printer \<Rightarrow> string \<Rightarrow> Metrics list \<Rightarrow> panic + string" where
  "formatHostMetrics P builder [] = Inr builder"
| "formatHostMetrics P builder (m # metrics) =
     (if metric_Name m = ''process.cpu.time'' then
        formatHostMetrics P (formatCPUTime P builder m) metrics
      else if metric_Name m = ''process.memory.usage'' then
        formatHostMetrics P (formatMemoryUsage P builder m) metrics
      else if metric_Name m = ''runtime.go.gc.count'' then
        formatHostMetrics P (formatGCCount P builder m) metrics
      else
        (case formatGenericMetric P builder m of
           Inl e \<Rightarrow> Inl e
         | Inr b \<Rightarrow> formatHostMetrics P b metrics))"

fun formatCustomMetrics :: "printer \<Rightarrow> string \<Rightarrow> Metrics list \<Rightarrow> panic + string" where
  "formatCustomMetrics P builder [] = Inr builder"
| "formatCustomMetrics P builder (m # metrics) =
     (case formatGenericMetric P builder m of
        Inl e \<Rightarrow> Inl e
      | Inr b \<Rightarrow> formatCustomMetrics P b metrics)"

text \<open>
  The db-pool table: the three cells start at their placeholders, and every data
  point of an \<open>int64\<close> gauge with one of the three names overwrites its cell.
\<close>

record pool_cells =
  cell_size :: string
  cell_available :: string
  cell_pending :: string

definition gauge_points :: "Aggregation \<Rightarrow> int DataPoint list" where
  "gauge_points d = (case d of GaugeInt dps \<Rightarrow> dps | _ \<Rightarrow> [])"

definition pool_step :: "pool_cells \<Rightarrow> Metrics \<Rightarrow> pool_cells" where
  "pool_step c m =
     (if metric_Name m = ''db.pool.size'' then
        foldl (\<lambda>c dp. c\<lparr>cell_size := show_int (dp_Value dp) @ ''/'' @ show_int (dp_Value dp)\<rparr>)
          c (gauge_points (metric_Data m))
      else if metric_Name m = ''db.pool.available'' then
        foldl (\<lambda>c dp. c\<lparr>cell_available :=
                          show_int (dp_Value dp) @ ''/'' @ show_int (dp_Value dp)\<rparr>)
          c (gauge_points (metric_Data m))
      else if metric_Name m = ''db.pool.pending'' then
        foldl (\<lambda>c dp. c\<lparr>cell_pending := show_int (dp_Value dp)\<rparr>)
          c (gauge_points (metric_Data m))
      else c)"

definition pool_header :: "printer \<Rightarrow> string" where
  "pool_header P =
     ''     '' @ paint P [FgYellow, Bold] ''size'' @ '' | ''
       @ paint P [FgYellow, Bold] ''available'' @ '' | ''
       @ paint P [FgYellow, Bold] ''pending'' @ nl"

definition pool_row :: "printer \<Rightarrow> pool_cells \<Rightarrow> string" where
  "pool_row P c =
     ''     '' @ paint P [FgCyan] (cell_size c) @ '' |      ''
       @ paint P [FgCyan] (cell_available c) @ '' |      ''
       @ paint P [FgCyan] (cell_pending c) @ nl"

definition formatDBPoolMetrics :: "printer \<Rightarrow> string \<Rightarrow> Metrics list \<Rightarrow> string" where
  "formatDBPoolMetrics P builder metrics =
     builder @ pool_header P
       @ pool_row P
           (foldl pool_step
              \<lparr>cell_size = ''0/0'', cell_available = ''0/0'', cell_pending = ''0''\<rparr> metrics)"

text \<open>
  The queue table keeps its cells in a map; reading a key a Go map does not hold
  gives the empty string.
\<close>

definition cell :: "(string \<rightharpoonup> string) \<Rightarrow> string \<Rightarrow> string" where
  "cell values k = (case values k of None \<Rightarrow> [] | Some v \<Rightarrow> v)"

definition queue_point :: "string \<Rightarrow> (string \<rightharpoonup> string) \<Rightarrow> int DataPoint \<Rightarrow> (string \<rightharpoonup> string)" where
  "queue_point name values dp =
     (if name = ''queue.cold'' then values(''cold'' \<mapsto> show_int (dp_Value dp))
      else if name = ''queue.remaining'' then values(''remaining'' \<mapsto> show_int (dp_Value dp))
      else if name = ''queue.incoming'' then values(''incoming'' \<mapsto> show_int (dp_Value dp))
      else if name = ''queue.outgoing'' then values(''outgoing'' \<mapsto> show_int (dp_Value dp))
      else values)"

definition queue_step :: "(string \<rightharpoonup> string) \<Rightarrow> Metrics \<Rightarrow> (string \<rightharpoonup> string)" where
  "queue_step values m =
     foldl (queue_point (metric_Name m)) values (gauge_points (metric_Data m))"

definition formatQueueMetrics :: "printer \<Rightarrow> string \<Rightarrow> Metrics list \<Rightarrow> string" where
  "formatQueueMetrics P builder metrics =
     (let values =
            foldl queue_step
              [''cold'' \<mapsto> ''0'', ''remaining'' \<mapsto> ''0'', ''min'' \<mapsto> ''0'', ''med'' \<mapsto> ''0'',
               ''max'' \<mapsto> ''0'', ''incoming'' \<mapsto> ''0'', ''outgoing'' \<mapsto> ''0'']
              metrics
      in builder
           @ ''     cold | remaining | min storage time | med storage time | max storage time | incoming | outgoing''
           @ nl
           @ ''     '' @ pad4 (cell values ''cold'') @ '' |      '' @ pad4 (cell values ''remaining'')
           @ '' |             '' @ pad4 (cell values ''min'')
           @ '' |             '' @ pad4 (cell values ''med'')
           @ '' |             '' @ pad4 (cell values ''max'')
           @ '' |     '' @ pad4 (cell values ''incoming'')
           @ '' |     '' @ pad4 (cell values ''outgoing'') @ nl)"

text \<open>
  \<open>Format\<close> sorts the metrics of all scopes into four buckets by the prefix of the
  name, first match first, and renders each bucket that is not empty.
\<close>

record buckets =
  hostMetrics :: "Metrics list"
  dbPoolMetrics :: "Metrics list"
  queueMetrics :: "Metrics list"
  customMetrics :: "Metrics list"

definition classify :: "buckets \<Rightarrow> Metrics \<Rightarrow> buckets" where
  "classify b m =
     (if HasPrefix (metric_Name m) ''process.'' \<or> HasPrefix (metric_Name m) ''runtime.''
      then b\<lparr>hostMetrics := hostMetrics b @ [m]\<rparr>
      else if HasPrefix (metric_Name m) ''db.pool''
      then b\<lparr>dbPoolMetrics := dbPoolMetrics b @ [m]\<rparr>
      else if HasPrefix (metric_Name m) ''queue''
      then b\<lparr>queueMetrics := queueMetrics b @ [m]\<rparr>
      else b\<lparr>customMetrics := customMetrics b @ [m]\<rparr>)"

definition is_host :: "Metrics \<Rightarrow> bool" where
  "is_host m = (HasPrefix (metric_Name m) ''process.'' \<or> HasPrefix (metric_Name m) ''runtime.'')"

definition group_metrics :: "ResourceMetrics \<Rightarrow> buckets" where
  "group_metrics scopes =
     foldl (foldl classify)
       \<lparr>hostMetrics = [], dbPoolMetrics = [], queueMetrics = [], customMetrics = []\<rparr> scopes"

definition section_title :: "printer \<Rightarrow> string \<Rightarrow> string" where
  "section_title P title =
     paint P [FgGreen, Bold] ''[telemetry]'' @ '' - '' @ paint P [FgCyan, Bold] title @ '':'' @ nl"

definition host_section :: "printer \<Rightarrow> Metrics list \<Rightarrow> string \<Rightarrow> panic + string" where
  "host_section P ms builder =
     (if ms \<noteq> [] then
        (case formatHostMetrics P (builder @ section_title P ''host metrics'') ms of
           Inl e \<Rightarrow> Inl e
         | Inr b \<Rightarrow> Inr (b @ nl))
      else Inr builder)"

definition pool_section :: "printer \<Rightarrow> Metrics list \<Rightarrow> string \<Rightarrow> string" where
  "pool_section P ms builder =
     (if ms \<noteq> [] then formatDBPoolMetrics P (builder @ section_title P ''db.pool'') ms @ nl
      else builder)"

definition queue_section :: "printer \<Rightarrow> Metrics list \<Rightarrow> string \<Rightarrow> string" where
  "queue_section P ms builder =
     (if ms \<noteq> [] then formatQueueMetrics P (builder @ section_title P ''queue'') ms @ nl
      else builder)"

definition custom_section :: "printer \<Rightarrow> Metrics list \<Rightarrow> string \<Rightarrow> panic + string" where
  "custom_section P ms builder =
     (if ms \<noteq> [] then
        (case formatCustomMetrics P (builder @ section_title P ''custom metrics'') ms of
           Inl e \<Rightarrow> Inl e
         | Inr b \<Rightarrow> Inr (b @ nl))
      else Inr builder)"

definition Format :: "printer \<Rightarrow> ResourceMetrics option \<Rightarrow> panic + string" where
  "Format P rm =
     (case rm of
        None \<Rightarrow> Inr []
      | Some scopes \<Rightarrow>
          if scopes = [] then Inr []
          else
            (let g = group_metrics scopes in
             case host_section P (hostMetrics g) [] of
               Inl e \<Rightarrow> Inl e
             | Inr b \<Rightarrow>
                 custom_section P (customMetrics g)
                   (queue_section P (queueMetrics g) (pool_section P (dbPoolMetrics g) b))))"


definition empty_histogram :: Metrics where
  "empty_histogram = \<lparr>metric_Name = ''http.server.duration'', metric_Data = HistogramInt []\<rparr>"





subsection \<open>Span renderer (defaultSpanFormatter)\<close>

text \<open>
  A finished span as the SDK delivers it. \<open>span_TraceID\<close> is the hexadecimal form
  \<open>TraceID().String()\<close> gives, always 32 characters, so the slice \<open>traceID[:8]\<close>
  of the header is in range. The times are instants in nanoseconds; \<open>After t u\<close> is
  \<open>t.After(u)\<close>.
\<close>

record SpanRecord =
  span_TraceID :: string
  span_SpanID :: string
  span_Name :: string
  span_StartTime :: int
  span_EndTime :: int
  span_Attributes :: "(string \<times> attr_value) list"

definition After :: "int \<Rightarrow> int \<Rightarrow> bool" where
  "After t u = (u < t)"

text \<open>
  The text is kept as the sequence of lines written to the builder, one constructor
  for each \<open>WriteString\<close> of the renderer: the header of a trace with the
  abbreviated id, the line of a span (indentation depth and the span whose start,
  end, duration and name fill the columns; the \<open>%8.2f\<close> rendering of the times is
  floating point and left out), the line of an attribute (depth, key, value), and
  the empty line that closes a trace.
\<close>

datatype out_line =
    TraceHeader string
  | SpanLine nat SpanRecord
  | AttrLine nat string string
  | BlankLine

definition importantKeys :: "string list" where
  "importantKeys =
     [''http.method'', ''http.url'', ''http.status_code'', ''db.statement'', ''db.system'',
      ''error'']"

definition isImportantAttribute :: "string \<Rightarrow> bool" where
  "isImportantAttribute key = (key \<in> set importantKeys)"

definition formatSpanHierarchy :: "SpanRecord list \<Rightarrow> nat \<Rightarrow> out_line list" where
  "formatSpanHierarchy spans depth =
     concat (map (\<lambda>sp.
        SpanLine depth sp
          # map (\<lambda>attr. AttrLine depth (fst attr) (AsString (snd attr)))
              (filter (\<lambda>attr. isImportantAttribute (fst attr)) (span_Attributes sp)))
       spans)"

text \<open>
  The bubble sort of \<open>sortSpansByStartTime\<close>, loop by loop: \<open>bubble_inner\<close> is the
  loop over \<open>j\<close> and \<open>bubble_outer\<close> the loop over \<open>i\<close>. The bounds are Go
  \<open>int\<close>s, so the comparisons are made in \<open>int\<close>.
\<close>

function bubble_inner :: "SpanRecord list \<Rightarrow> nat \<Rightarrow> nat \<Rightarrow> SpanRecord list" where
  "bubble_inner srt i j =
     (if int j < int (length srt) - int i - 1 then
        bubble_inner
          (if After (span_StartTime (srt ! j)) (span_StartTime (srt ! (j + 1)))
           then srt[j := srt ! (j + 1), j + 1 := srt ! j]
           else srt)
          i (j + 1)
      else srt)"
  by pat_completeness auto
termination
  by (relation "measure (\<lambda>(srt, i, j). length srt - j)") auto

declare bubble_inner.simps [simp del]

function bubble_outer :: "SpanRecord list \<Rightarrow> nat \<Rightarrow> SpanRecord list" where
  "bubble_outer srt i =
     (if int i < int (length srt) - 1 then bubble_outer (bubble_inner srt i 0) (i + 1)
      else srt)"
  by pat_completeness auto
termination
proof (relation "measure (\<lambda>(srt, i). length srt - i)")
  show "wf (measure (\<lambda>(srt, i). length srt - i))"
    by simp
next
  fix srt :: "SpanRecord list" and i :: nat
  assume guard: "int i < int (length srt) - 1"
  have len: "length (bubble_inner xs a b) = length xs" for xs a b
  proof (induction xs a b rule: bubble_inner.induct)
    case (1 xs a b)
    then show ?case
      by (subst bubble_inner.simps) (simp split: if_splits)
  qed
  show "((bubble_inner srt i 0, i + 1), (srt, i)) \<in> measure (\<lambda>(srt, i). length srt - i)"
    using guard by (simp add: len)
qed

declare bubble_outer.simps [simp del]

definition sortSpansByStartTime :: "SpanRecord list \<Rightarrow> SpanRecord list" where
  "sortSpansByStartTime spans = bubble_outer spans 0"


text \<open>
  \<open>traceGroups\<close> is a Go map from trace id to the spans of the trace, in batch
  order. Reading a key the map does not hold gives the nil slice.
\<close>

definition spans_of :: "(string \<rightharpoonup> SpanRecord list) \<Rightarrow> string \<Rightarrow> SpanRecord list" where
  "spans_of groups traceID = (case groups traceID of None \<Rightarrow> [] | Some l \<Rightarrow> l)"

definition add_span ::
  "(string \<rightharpoonup> SpanRecord list) \<Rightarrow> SpanRecord \<Rightarrow> (string \<rightharpoonup> SpanRecord list)" where
  "add_span groups sp =
     groups(span_TraceID sp \<mapsto> spans_of groups (span_TraceID sp) @ [sp])"

definition traceGroups :: "SpanRecord list \<Rightarrow> (string \<rightharpoonup> SpanRecord list)" where
  "traceGroups spans = foldl add_span Map.empty spans"

text \<open>
  \<open>for traceID, traceSpans := range traceGroups\<close> visits every key of the map once,
  in an order the language leaves unspecified and that may differ from run to run.
  The order of a run is the argument \<open>order\<close> of \<open>Format_spans\<close>; the orders a run
  can take are those of \<open>range_order\<close>.
\<close>

definition range_order :: "(string \<rightharpoonup> 'v) \<Rightarrow> string list \<Rightarrow> bool" where
  "range_order m order = (distinct order \<and> set order = dom m)"

definition trace_block :: "(string \<rightharpoonup> SpanRecord list) \<Rightarrow> string \<Rightarrow> out_line list" where
  "trace_block groups traceID =
     (let sortedSpans = sortSpansByStartTime (spans_of groups traceID) in
      TraceHeader (take 8 traceID)
        # (if sortedSpans \<noteq> [] then formatSpanHierarchy sortedSpans 0 else [])
        @ [BlankLine])"

definition Format_spans :: "string list \<Rightarrow> SpanRecord list \<Rightarrow> out_line list" where
  "Format_spans order spans =
     (if spans = [] then [] else concat (map (trace_block (traceGroups spans)) order))"

text \<open>Reading the output back: the headers, and the spans of the span lines.\<close>

fun line_header :: "out_line \<Rightarrow> string list" where
  "line_header (TraceHeader h) = [h]"
| "line_header _ = []"


definition headers :: "out_line list \<Rightarrow> string list" where
  "headers ls = concat (map line_header ls)"


text \<open>The trace ids of a batch in the order in which they are first met.\<close>

definition first_encounter_order :: "SpanRecord list \<Rightarrow> string list" where
  "first_encounter_order spans =
     foldl (\<lambda>seen s. if span_TraceID s \<in> set seen then seen else seen @ [span_TraceID s])
       [] spans"

text \<open>Sample spans: two traces, the first with two spans out of order.\<close>

definition trace_A :: string where
  "trace_A = ''4bf92f3577b34da6a3ce929d0e0e4736''"

definition trace_B :: string where
  "trace_B = ''00f067aa0ba902b7a3ce929d0e0e4737''"

definition span_at :: "string \<Rightarrow> string \<Rightarrow> int \<Rightarrow> SpanRecord" where
  "span_at traceID name t =
     \<lparr>span_TraceID = traceID, span_SpanID = ''00f067aa0ba902b7'', span_Name = name,
      span_StartTime = t, span_EndTime = t + 1, span_Attributes = []\<rparr>"

definition sample_batch :: "SpanRecord list" where
  "sample_batch =
     [span_at trace_A ''query'' 3, span_at trace_A ''request'' 1, span_at trace_B ''job'' 2]"


section \<open>Properties\<close>

subsection \<open>Configuration\<close>

text \<open>
  C9. When \<open>Disabled\<close> is set, \<open>IsTracingEnabled\<close>, \<open>IsMetricsEnabled\<close> and
  \<open>IsLoggingEnabled\<close> are all false whatever the per-signal flags say; and each of
  them is true exactly when the configuration is not disabled, the signal's block is
  not nil and the block's \<open>Enabled\<close> flag is set.
\<close>

theorem query_flags:
  "(Disabled c \<longrightarrow> \<not> IsTracingEnabled c \<and> \<not> IsMetricsEnabled c \<and> \<not> IsLoggingEnabled c)
   \<and> (IsTracingEnabled c \<longleftrightarrow> \<not> Disabled c \<and> (\<exists>t. Tracing c = Some t \<and> tracing_Enabled t))
   \<and> (IsMetricsEnabled c \<longleftrightarrow> \<not> Disabled c \<and> (\<exists>m. Metrics c = Some m \<and> metrics_Enabled m))
   \<and> (IsLoggingEnabled c \<longleftrightarrow> \<not> Disabled c \<and> (\<exists>l. Logging c = Some l \<and> logging_Enabled l))"
  by (auto simp: IsTracingEnabled_def IsMetricsEnabled_def IsLoggingEnabled_def IsEnabled_def
           split: option.splits)

theorem query_flags_witness:
  "Disabled (example_config\<lparr>Disabled := True\<rparr>)
   \<and> \<not> IsTracingEnabled (example_config\<lparr>Disabled := True\<rparr>)
   \<and> \<not> IsMetricsEnabled (example_config\<lparr>Disabled := True\<rparr>)
   \<and> \<not> IsLoggingEnabled (example_config\<lparr>Disabled := True\<rparr>)
   \<and> IsTracingEnabled example_config \<and> \<not> IsMetricsEnabled example_config
   \<and> IsLoggingEnabled example_config"
  using query_flags [of "example_config\<lparr>Disabled := True\<rparr>"] query_flags [of example_config]
  by (simp add: example_config_def)

text \<open>
  C1. Applying a preset whose name is in the catalog succeeds and touches nothing but
  the three signal blocks. A block that is nil is replaced by the preset's block as a
  whole. A block that is present keeps every field but the exporter; the exporter
  changes only when it was nil, and then it becomes the exporter of the preset's block
  (or stays nil when the preset has no such block). In particular, under
  \<open>telemetry-to-console\<close>, a tracing block that is enabled, has a sampler and has no
  exporter ends with an exporter whose module is \<open>console\<close>, and with its sampler.
\<close>

theorem preset_merge:
  "GetPredefinedKinds (Kind c) = Some p \<longrightarrow>
     (\<exists>c'. applyPredefinedKind c = Inr c'
        \<and> c' = c\<lparr>Tracing := Tracing c', Metrics := Metrics c', Logging := Logging c'\<rparr>
        \<and> (Tracing c = None \<longrightarrow> Tracing c' = pk_Tracing p)
        \<and> (Metrics c = None \<longrightarrow> Metrics c' = pk_Metrics p)
        \<and> (Logging c = None \<longrightarrow> Logging c' = pk_Logging p)
        \<and> (\<forall>t. Tracing c = Some t \<longrightarrow>
              (\<exists>e. Tracing c' = Some (t\<lparr>tracing_Exporter := e\<rparr>)
                 \<and> (tracing_Exporter t \<noteq> None \<longrightarrow> e = tracing_Exporter t)
                 \<and> (tracing_Exporter t = None \<longrightarrow>
                      e = (case pk_Tracing p of None \<Rightarrow> None | Some pt \<Rightarrow> tracing_Exporter pt))))
        \<and> (\<forall>m. Metrics c = Some m \<longrightarrow>
              (\<exists>e. Metrics c' = Some (m\<lparr>metrics_Exporter := e\<rparr>)
                 \<and> (metrics_Exporter m \<noteq> None \<longrightarrow> e = metrics_Exporter m)
                 \<and> (metrics_Exporter m = None \<longrightarrow>
                      e = (case pk_Metrics p of None \<Rightarrow> None | Some pm \<Rightarrow> metrics_Exporter pm))))
        \<and> (\<forall>l. Logging c = Some l \<longrightarrow>
              (\<exists>e. Logging c' = Some (l\<lparr>logging_Exporter := e\<rparr>)
                 \<and> (logging_Exporter l \<noteq> None \<longrightarrow> e = logging_Exporter l)
                 \<and> (logging_Exporter l = None \<longrightarrow>
                      e = (case pk_Logging p of None \<Rightarrow> None | Some pl \<Rightarrow> logging_Exporter pl))))
        \<and> (Kind c = ''telemetry-to-console'' \<longrightarrow>
             (\<forall>t. Tracing c = Some t \<and> tracing_Enabled t \<and> tracing_Sampler t \<noteq> None
                    \<and> tracing_Exporter t = None \<longrightarrow>
                (\<exists>t' e. Tracing c' = Some t' \<and> tracing_Exporter t' = Some e
                    \<and> exporter_Module e = ''console''
                    \<and> tracing_Sampler t' = tracing_Sampler t))))"
proof
  assume p: "GetPredefinedKinds (Kind c) = Some p"
  define c' where "c' = c\<lparr>Tracing := merge_tracing (Tracing c) (pk_Tracing p),
                           Metrics := merge_metrics (Metrics c) (pk_Metrics p),
                           Logging := merge_logging (Logging c) (pk_Logging p)\<rparr>"
  have run: "applyPredefinedKind c = Inr c'"
    by (simp add: applyPredefinedKind_def p c'_def)
  have tr: "Tracing c' = merge_tracing (Tracing c) (pk_Tracing p)"
    and me: "Metrics c' = merge_metrics (Metrics c) (pk_Metrics p)"
    and lo: "Logging c' = merge_logging (Logging c) (pk_Logging p)"
    by (simp_all add: c'_def)
  have frame: "c' = c\<lparr>Tracing := Tracing c', Metrics := Metrics c', Logging := Logging c'\<rparr>"
    by (simp add: c'_def)
  have absent: "(Tracing c = None \<longrightarrow> Tracing c' = pk_Tracing p)
      \<and> (Metrics c = None \<longrightarrow> Metrics c' = pk_Metrics p)
      \<and> (Logging c = None \<longrightarrow> Logging c' = pk_Logging p)"
    by (simp add: tr me lo merge_tracing_def merge_metrics_def merge_logging_def
             split: option.splits)
  have t_present: "\<exists>e. Tracing c' = Some (t\<lparr>tracing_Exporter := e\<rparr>)
        \<and> (tracing_Exporter t \<noteq> None \<longrightarrow> e = tracing_Exporter t)
        \<and> (tracing_Exporter t = None \<longrightarrow>
              e = (case pk_Tracing p of None \<Rightarrow> None | Some pt \<Rightarrow> tracing_Exporter pt))"
    if "Tracing c = Some t" for t
  proof (cases "pk_Tracing p")
    case None
    with that show ?thesis
      by (intro exI [of _ "tracing_Exporter t"]) (simp add: tr merge_tracing_def)
  next
    case (Some pt)
    with that show ?thesis
      by (cases "tracing_Exporter t")
         (auto simp: tr merge_tracing_def intro: exI [of _ "tracing_Exporter t"])
  qed
  have m_present: "\<exists>e. Metrics c' = Some (m\<lparr>metrics_Exporter := e\<rparr>)
        \<and> (metrics_Exporter m \<noteq> None \<longrightarrow> e = metrics_Exporter m)
        \<and> (metrics_Exporter m = None \<longrightarrow>
              e = (case pk_Metrics p of None \<Rightarrow> None | Some pm \<Rightarrow> metrics_Exporter pm))"
    if "Metrics c = Some m" for m
  proof (cases "pk_Metrics p")
    case None
    with that show ?thesis
      by (intro exI [of _ "metrics_Exporter m"]) (simp add: me merge_metrics_def)
  next
    case (Some pm)
    with that show ?thesis
      by (cases "metrics_Exporter m")
         (auto simp: me merge_metrics_def intro: exI [of _ "metrics_Exporter m"])
  qed
  have l_present: "\<exists>e. Logging c' = Some (l\<lparr>logging_Exporter := e\<rparr>)
        \<and> (logging_Exporter l \<noteq> None \<longrightarrow> e = logging_Exporter l)
        \<and> (logging_Exporter l = None \<longrightarrow>
              e = (case pk_Logging p of None \<Rightarrow> None | Some pl \<Rightarrow> logging_Exporter pl))"
    if "Logging c = Some l" for l
  proof (cases "pk_Logging p")
    case None
    with that show ?thesis
      by (intro exI [of _ "logging_Exporter l"]) (simp add: lo merge_logging_def)
  next
    case (Some pl)
    with that show ?thesis
      by (cases "logging_Exporter l")
         (auto simp: lo merge_logging_def intro: exI [of _ "logging_Exporter l"])
  qed
  have console: "\<exists>t' e. Tracing c' = Some t' \<and> tracing_Exporter t' = Some e
        \<and> exporter_Module e = ''console'' \<and> tracing_Sampler t' = tracing_Sampler t"
    if k: "Kind c = ''telemetry-to-console''"
      and t: "Tracing c = Some t \<and> tracing_Enabled t \<and> tracing_Sampler t \<noteq> None
              \<and> tracing_Exporter t = None" for t
  proof -
    have "pk_Tracing p = Some (preset_tracing ''console'' ''ConsoleSpanExporter'')"
      using p k by (auto simp: GetPredefinedKinds_def predefined_kinds_def)
    then show ?thesis
      using t by (simp add: tr merge_tracing_def preset_tracing_def preset_exporter_def)
  qed
  show "\<exists>c'. applyPredefinedKind c = Inr c'
        \<and> c' = c\<lparr>Tracing := Tracing c', Metrics := Metrics c', Logging := Logging c'\<rparr>
        \<and> (Tracing c = None \<longrightarrow> Tracing c' = pk_Tracing p)
        \<and> (Metrics c = None \<longrightarrow> Metrics c' = pk_Metrics p)
        \<and> (Logging c = None \<longrightarrow> Logging c' = pk_Logging p)
        \<and> (\<forall>t. Tracing c = Some t \<longrightarrow>
              (\<exists>e. Tracing c' = Some (t\<lparr>tracing_Exporter := e\<rparr>)
                 \<and> (tracing_Exporter t \<noteq> None \<longrightarrow> e = tracing_Exporter t)
                 \<and> (tracing_Exporter t = None \<longrightarrow>
                      e = (case pk_Tracing p of None \<Rightarrow> None | Some pt \<Rightarrow> tracing_Exporter pt))))
        \<and> (\<forall>m. Metrics c = Some m \<longrightarrow>
              (\<exists>e. Metrics c' = Some (m\<lparr>metrics_Exporter := e\<rparr>)
                 \<and> (metrics_Exporter m \<noteq> None \<longrightarrow> e = metrics_Exporter m)
                 \<and> (metrics_Exporter m = None \<longrightarrow>
                      e = (case pk_Metrics p of None \<Rightarrow> None | Some pm \<Rightarrow> metrics_Exporter pm))))
        \<and> (\<forall>l. Logging c = Some l \<longrightarrow>
              (\<exists>e. Logging c' = Some (l\<lparr>logging_Exporter := e\<rparr>)
                 \<and> (logging_Exporter l \<noteq> None \<longrightarrow> e = logging_Exporter l)
                 \<and> (logging_Exporter l = None \<longrightarrow>
                      e = (case pk_Logging p of None \<Rightarrow> None | Some pl \<Rightarrow> logging_Exporter pl))))
        \<and> (Kind c = ''telemetry-to-console'' \<longrightarrow>
             (\<forall>t. Tracing c = Some t \<and> tracing_Enabled t \<and> tracing_Sampler t \<noteq> None
                    \<and> tracing_Exporter t = None \<longrightarrow>
                (\<exists>t' e. Tracing c' = Some t' \<and> tracing_Exporter t' = Some e
                    \<and> exporter_Module e = ''console''
                    \<and> tracing_Sampler t' = tracing_Sampler t)))"
    using run frame absent t_present m_present l_present console
    by (intro exI [of _ c']) blast
qed

theorem preset_merge_witness:
  "GetPredefinedKinds (Kind example_config) = Some (the (GetPredefinedKinds ''telemetry-to-console''))
   \<and> Tracing example_config = Some (the (Tracing example_config))
   \<and> tracing_Enabled (the (Tracing example_config))
   \<and> tracing_Sampler (the (Tracing example_config)) \<noteq> None
   \<and> tracing_Exporter (the (Tracing example_config)) = None
   \<and> (\<exists>c' t e. applyPredefinedKind example_config = Inr c'
         \<and> Tracing c' = Some t \<and> tracing_Exporter t = Some e \<and> exporter_Module e = ''console''
         \<and> tracing_Sampler t = tracing_Sampler (the (Tracing example_config)))"
proof -
  let ?p = "the (GetPredefinedKinds ''telemetry-to-console'')"
  let ?t = "the (Tracing example_config)"
  have k: "GetPredefinedKinds (Kind example_config) = Some ?p"
    by (simp add: example_config_def GetPredefinedKinds_def predefined_kinds_def)
  have n: "Kind example_config = ''telemetry-to-console''"
    by (simp add: example_config_def)
  have t: "Tracing example_config = Some ?t \<and> tracing_Enabled ?t
           \<and> tracing_Sampler ?t \<noteq> None \<and> tracing_Exporter ?t = None"
    by (simp add: example_config_def)
  from preset_merge [of example_config ?p] k n t
  obtain c' where "applyPredefinedKind example_config = Inr c'"
    and "\<exists>t' e. Tracing c' = Some t' \<and> tracing_Exporter t' = Some e
           \<and> exporter_Module e = ''console'' \<and> tracing_Sampler t' = tracing_Sampler ?t"
    by blast
  with k t show ?thesis by blast
qed

subsection \<open>Environment parsing\<close>

text \<open>
  C5. \<open>getEnvBool\<close> on a variable that is set to the empty string returns the
  default, not \<open>false\<close>: with the default \<open>true\<close> of \<open>HOST_METRICS_ENABLED\<close>
  the result is \<open>true\<close>. The guard \<open>value != ""\<close> sends the empty string to the
  default before the switch, whose \<open>""\<close> case is never reached.
\<close>

theorem getEnvBool_set_empty_returns_default:
  "getEnvBool [''HOST_METRICS_ENABLED'' \<mapsto> ''''] ''HOST_METRICS_ENABLED'' True = True"
  by (simp add: getEnvBool_def Getenv_def)

text \<open>What \<open>getEnvBool\<close> computes, case by case.\<close>

lemma getEnvBool_cases:
  "getEnvBool env key d =
     (case env key of
        None \<Rightarrow> d
      | Some v \<Rightarrow>
          if v = [] then d
          else ToLower v \<noteq> ''false'' \<and> ToLower v \<noteq> ''0'')"
  by (auto simp: getEnvBool_def Getenv_def ToLower_def Let_def split: option.splits)

subsection \<open>Sampler factory\<close>

text \<open>
  C4. For a sampler spec of kind \<open>ParentBasedSampler\<close> the built policy is the
  parent-based sampler whose root is never-sample when \<open>root\<close> is
  \<open>AlwaysOffSampler\<close> and always-sample for every other root, a ratio-based or
  parent-based one included: the root goes through a switch of its own, with two
  cases and a default, and not through the kind mapping.
\<close>

theorem parent_based_root:
  "sampler_Kind sc = ''ParentBasedSampler'' \<Longrightarrow>
     createSampler (Some sc) =
       ParentBased (if sampler_Root sc = ''AlwaysOffSampler'' then NeverSample else AlwaysSample)"
  by (simp add: createSampler_def)

theorem parent_based_root_witness:
  "sampler_Kind ratio_rooted = ''ParentBasedSampler''
   \<and> createSampler (Some ratio_rooted) = ParentBased AlwaysSample"
  using parent_based_root [of ratio_rooted] by (simp add: ratio_rooted_def)

text \<open>
  With root \<open>TraceIdRatioBasedSampler\<close> and ratio 1/4 the kind mapping, applied
  to the root, gives a ratio-based policy; the sampler built for the parent-based
  spec has the always-sample root, not that one.
\<close>

theorem parent_based_root_not_recursive:
  "createSampler (Some (ratio_rooted\<lparr>sampler_Kind := sampler_Root ratio_rooted\<rparr>))
     = TraceIDRatioBased (1 / 4)
   \<and> createSampler (Some ratio_rooted) = ParentBased AlwaysSample
   \<and> createSampler (Some ratio_rooted)
       \<noteq> ParentBased (createSampler (Some (ratio_rooted\<lparr>sampler_Kind := sampler_Root ratio_rooted\<rparr>)))"
  by (simp add: createSampler_def ratio_rooted_def)

subsection \<open>Severity labels\<close>

text \<open>
  C7. The severity label is chosen by at-or-above comparison against fatal, error,
  warn, info and debug, in that order, and is the trace label below all five: a
  severity between two levels gets the label of the lower one. A severity two above
  info and below warn is labelled INFO.
\<close>

theorem severity_thresholds:
  "ordered_levels L \<Longrightarrow>
     (SeverityFatal L \<le> s \<longrightarrow> formatSeverity P L s = paint P [FgRed, Bold] label_FATAL)
   \<and> (SeverityError L \<le> s \<and> s < SeverityFatal L \<longrightarrow>
         formatSeverity P L s = paint P [FgRed, Bold] label_ERROR)
   \<and> (SeverityWarn L \<le> s \<and> s < SeverityError L \<longrightarrow>
         formatSeverity P L s = paint P [FgYellow, Bold] label_WARN)
   \<and> (SeverityInfo L \<le> s \<and> s < SeverityWarn L \<longrightarrow>
         formatSeverity P L s = paint P [FgCyan, Bold] label_INFO)
   \<and> (SeverityDebug L \<le> s \<and> s < SeverityInfo L \<longrightarrow>
         formatSeverity P L s = paint P [FgHiBlack] label_DEBUG)
   \<and> (s < SeverityDebug L \<longrightarrow> formatSeverity P L s = paint P [FgMagenta] label_TRACE)
   \<and> (SeverityInfo L + 2 < SeverityWarn L \<longrightarrow>
         formatSeverity P L (SeverityInfo L + 2) = paint P [FgCyan, Bold] label_INFO)"
  by (auto simp: formatSeverity_def ordered_levels_def)

theorem severity_thresholds_witness:
  "ordered_levels otel_levels
   \<and> SeverityInfo otel_levels + 2 < SeverityWarn otel_levels
   \<and> formatSeverity plain otel_levels (SeverityInfo otel_levels + 2) = label_INFO
   \<and> formatSeverity plain otel_levels 11 = label_INFO
   \<and> formatSeverity plain otel_levels 12 = label_INFO
   \<and> formatSeverity plain otel_levels 13 = label_WARN
   \<and> formatSeverity plain otel_levels 0 = label_TRACE"
proof -
  have o: "ordered_levels otel_levels"
    by (simp add: ordered_levels_def otel_levels_def)
  have "formatSeverity plain otel_levels s = paint plain [FgCyan, Bold] label_INFO"
    if "9 \<le> s" "s < 13" for s
    using severity_thresholds [OF o, of s plain] that by (simp add: otel_levels_def)
  moreover have "formatSeverity plain otel_levels 13 = paint plain [FgYellow, Bold] label_WARN"
    using severity_thresholds [OF o, of 13 plain] by (simp add: otel_levels_def)
  moreover have "formatSeverity plain otel_levels 0 = paint plain [FgMagenta] label_TRACE"
    using severity_thresholds [OF o, of 0 plain] by (simp add: otel_levels_def)
  ultimately show ?thesis
    using o by (simp add: otel_levels_def plain_def)
qed

subsection \<open>Metric renderer\<close>

text \<open>
  What a function has written before it is called stays in front of what it writes,
  and whether it panics does not depend on it.
\<close>

lemma foldl_append_prefix:
  "foldl (\<lambda>b x. b @ f x) (a @ b) xs = a @ foldl (\<lambda>b x. b @ f x) b xs"
  by (induction xs arbitrary: b) simp_all

lemma formatCPUTime_prefix: "formatCPUTime P (a @ b) m = a @ formatCPUTime P b m"
  by (simp add: formatCPUTime_def Let_def split: Aggregation.splits)

lemma formatMemoryUsage_prefix: "formatMemoryUsage P (a @ b) m = a @ formatMemoryUsage P b m"
  by (simp add: formatMemoryUsage_def foldl_append_prefix split: Aggregation.splits)

lemma formatGCCount_prefix: "formatGCCount P (a @ b) m = a @ formatGCCount P b m"
  by (simp add: formatGCCount_def foldl_append_prefix split: Aggregation.splits)

lemma formatGenericMetric_prefix:
  "formatGenericMetric P (a @ b) m =
     (case formatGenericMetric P b m of Inl e \<Rightarrow> Inl e | Inr r \<Rightarrow> Inr (a @ r))"
  by (simp add: formatGenericMetric_def Let_def foldl_append_prefix [symmetric]
           split: Aggregation.splits sum.splits)

lemma formatHostMetrics_prefix:
  "formatHostMetrics P (a @ b) ms =
     (case formatHostMetrics P b ms of Inl e \<Rightarrow> Inl e | Inr r \<Rightarrow> Inr (a @ r))"
proof (induction ms arbitrary: b)
  case Nil
  show ?case by simp
next
  case (Cons m ms)
  show ?case
    by (simp add: Cons.IH formatCPUTime_prefix formatMemoryUsage_prefix formatGCCount_prefix
          formatGenericMetric_prefix split: sum.splits)
qed





lemma host_section_prefix:
  "host_section P ms (a @ b) =
     (case host_section P ms b of Inl e \<Rightarrow> Inl e | Inr r \<Rightarrow> Inr (a @ r))"
proof -
  have "formatHostMetrics P ((a @ b) @ t) ms =
          (case formatHostMetrics P (b @ t) ms of Inl e \<Rightarrow> Inl e | Inr r \<Rightarrow> Inr (a @ r))" for t
    using formatHostMetrics_prefix [of P a "b @ t" ms] by simp
  then show ?thesis
    by (simp add: host_section_def split: sum.splits)
qed

lemma classify_fields:
  "hostMetrics (classify b m) = hostMetrics b @ filter is_host [m]"
  "dbPoolMetrics (classify b m) = dbPoolMetrics b
     @ filter (\<lambda>m. \<not> is_host m \<and> HasPrefix (metric_Name m) ''db.pool'') [m]"
  "queueMetrics (classify b m) = queueMetrics b
     @ filter (\<lambda>m. \<not> is_host m \<and> \<not> HasPrefix (metric_Name m) ''db.pool''
                   \<and> HasPrefix (metric_Name m) ''queue'') [m]"
  "customMetrics (classify b m) = customMetrics b
     @ filter (\<lambda>m. \<not> is_host m \<and> \<not> HasPrefix (metric_Name m) ''db.pool''
                   \<and> \<not> HasPrefix (metric_Name m) ''queue'') [m]"
  by (simp_all add: classify_def is_host_def)

lemma foldl_classify:
  "foldl classify b ms =
     \<lparr>hostMetrics = hostMetrics b @ filter is_host ms,
      dbPoolMetrics = dbPoolMetrics b
        @ filter (\<lambda>m. \<not> is_host m \<and> HasPrefix (metric_Name m) ''db.pool'') ms,
      queueMetrics = queueMetrics b
        @ filter (\<lambda>m. \<not> is_host m \<and> \<not> HasPrefix (metric_Name m) ''db.pool''
                      \<and> HasPrefix (metric_Name m) ''queue'') ms,
      customMetrics = customMetrics b
        @ filter (\<lambda>m. \<not> is_host m \<and> \<not> HasPrefix (metric_Name m) ''db.pool''
                      \<and> \<not> HasPrefix (metric_Name m) ''queue'') ms\<rparr>"
proof (induction ms arbitrary: b)
  case Nil
  show ?case by simp
next
  case (Cons m ms)
  have "foldl classify b (m # ms) = foldl classify (classify b m) ms"
    by simp
  also have "\<dots> =
     \<lparr>hostMetrics = hostMetrics (classify b m) @ filter is_host ms,
      dbPoolMetrics = dbPoolMetrics (classify b m)
        @ filter (\<lambda>m. \<not> is_host m \<and> HasPrefix (metric_Name m) ''db.pool'') ms,
      queueMetrics = queueMetrics (classify b m)
        @ filter (\<lambda>m. \<not> is_host m \<and> \<not> HasPrefix (metric_Name m) ''db.pool''
                      \<and> HasPrefix (metric_Name m) ''queue'') ms,
      customMetrics = customMetrics (classify b m)
        @ filter (\<lambda>m. \<not> is_host m \<and> \<not> HasPrefix (metric_Name m) ''db.pool''
                      \<and> \<not> HasPrefix (metric_Name m) ''queue'') ms\<rparr>"
    by (rule Cons.IH)
  finally show ?case
    by (simp add: classify_fields)
qed

lemma foldl_foldl_concat: "foldl (foldl f) b xss = foldl f b (concat xss)"
  by (induction xss arbitrary: b) simp_all

lemma group_metrics_filters:
  "group_metrics scopes =
     \<lparr>hostMetrics = filter is_host (concat scopes),
      dbPoolMetrics =
        filter (\<lambda>m. \<not> is_host m \<and> HasPrefix (metric_Name m) ''db.pool'') (concat scopes),
      queueMetrics =
        filter (\<lambda>m. \<not> is_host m \<and> \<not> HasPrefix (metric_Name m) ''db.pool''
                      \<and> HasPrefix (metric_Name m) ''queue'') (concat scopes),
      customMetrics =
        filter (\<lambda>m. \<not> is_host m \<and> \<not> HasPrefix (metric_Name m) ''db.pool''
                      \<and> \<not> HasPrefix (metric_Name m) ''queue'') (concat scopes)\<rparr>"
  by (simp add: group_metrics_def foldl_foldl_concat foldl_classify)

text \<open>
  C2. \<open>Format\<close> does not succeed on every batch: on a batch whose only metric is a
  histogram with no data points, the generic dump reads \<open>DataPoints[0]\<close> and the
  call panics with an index out of range.
\<close>

theorem Format_empty_histogram_panics:
  "Format P (Some [[empty_histogram]]) = Inl (IndexOutOfRange 0 0)"
  by (simp add: Format_def group_metrics_def classify_def HasPrefix_def empty_histogram_def
        host_section_def pool_section_def queue_section_def custom_section_def
        formatGenericMetric_def first_count_def)


text \<open>
  The empty histogram is the only way to the panic: a batch none of whose metrics is
  a histogram without data points is rendered.
\<close>

lemma formatGenericMetric_succeeds:
  "metric_Data m \<noteq> HistogramInt [] \<Longrightarrow> metric_Data m \<noteq> HistogramFloat [] \<Longrightarrow>
     \<exists>r. formatGenericMetric P b m = Inr r"
  by (cases "metric_Data m")
     (auto simp: formatGenericMetric_def first_count_def Let_def split: list.splits)

lemma formatHostMetrics_succeeds:
  "\<forall>m \<in> set ms. metric_Data m \<noteq> HistogramInt [] \<and> metric_Data m \<noteq> HistogramFloat [] \<Longrightarrow>
     \<exists>r. formatHostMetrics P b ms = Inr r"
proof (induction ms arbitrary: b)
  case Nil
  show ?case by simp
next
  case (Cons m ms)
  then obtain r where "formatGenericMetric P b m = Inr r"
    using formatGenericMetric_succeeds [of m P b] by auto
  with Cons show ?case by simp
qed

lemma formatCustomMetrics_succeeds:
  "\<forall>m \<in> set ms. metric_Data m \<noteq> HistogramInt [] \<and> metric_Data m \<noteq> HistogramFloat [] \<Longrightarrow>
     \<exists>r. formatCustomMetrics P b ms = Inr r"
proof (induction ms arbitrary: b)
  case Nil
  show ?case by simp
next
  case (Cons m ms)
  then obtain r where "formatGenericMetric P b m = Inr r"
    using formatGenericMetric_succeeds [of m P b] by auto
  with Cons show ?case by simp
qed

lemma Format_succeeds:
  assumes "\<forall>m \<in> set (concat scopes).
             metric_Data m \<noteq> HistogramInt [] \<and> metric_Data m \<noteq> HistogramFloat []"
  shows "\<exists>out. Format P (Some scopes) = Inr out"
proof -
  define g where "g = group_metrics scopes"
  have "set (hostMetrics g) \<subseteq> set (concat scopes)"
    and "set (customMetrics g) \<subseteq> set (concat scopes)"
    by (auto simp: g_def group_metrics_filters)
  with assms
  have hm: "\<forall>m \<in> set (hostMetrics g).
              metric_Data m \<noteq> HistogramInt [] \<and> metric_Data m \<noteq> HistogramFloat []"
    and cm: "\<forall>m \<in> set (customMetrics g).
              metric_Data m \<noteq> HistogramInt [] \<and> metric_Data m \<noteq> HistogramFloat []"
    by blast+
  have host: "\<exists>r. host_section P (hostMetrics g) b = Inr r" for b
  proof (cases "hostMetrics g = []")
    case True
    then show ?thesis by (simp add: host_section_def)
  next
    case False
    obtain r where "formatHostMetrics P (b @ section_title P ''host metrics'') (hostMetrics g) = Inr r"
      using formatHostMetrics_succeeds [OF hm] by blast
    with False show ?thesis by (simp add: host_section_def)
  qed
  have custom: "\<exists>r. custom_section P (customMetrics g) b = Inr r" for b
  proof (cases "customMetrics g = []")
    case True
    then show ?thesis by (simp add: custom_section_def)
  next
    case False
    obtain r where "formatCustomMetrics P (b @ section_title P ''custom metrics'') (customMetrics g) = Inr r"
      using formatCustomMetrics_succeeds [OF cm] by blast
    with False show ?thesis by (simp add: custom_section_def)
  qed
  obtain h where h: "host_section P (hostMetrics g) [] = Inr h"
    using host by blast
  obtain c where "custom_section P (customMetrics g)
      (queue_section P (queueMetrics g) (pool_section P (dbPoolMetrics g) h)) = Inr c"
    using custom by blast
  with h show ?thesis
    by (cases "scopes = []") (simp_all add: Format_def Let_def g_def [symmetric])
qed

text \<open>A db-pool cell whose source metric is not in the batch keeps its placeholder.\<close>

lemma pool_cells_absent:
  "\<forall>m \<in> set ms. metric_Name m \<noteq> n \<Longrightarrow>
     (n = ''db.pool.size'' \<longrightarrow> cell_size (foldl pool_step c ms) = cell_size c)
   \<and> (n = ''db.pool.available'' \<longrightarrow> cell_available (foldl pool_step c ms) = cell_available c)
   \<and> (n = ''db.pool.pending'' \<longrightarrow> cell_pending (foldl pool_step c ms) = cell_pending c)"
proof (induction ms arbitrary: c)
  case Nil
  show ?case by simp
next
  case (Cons m ms)
  have keep: "cell_size (foldl (\<lambda>c dp. c\<lparr>cell_available := f dp\<rparr>) c dps) = cell_size c"
    "cell_size (foldl (\<lambda>c dp. c\<lparr>cell_pending := f dp\<rparr>) c dps) = cell_size c"
    "cell_available (foldl (\<lambda>c dp. c\<lparr>cell_size := f dp\<rparr>) c dps) = cell_available c"
    "cell_available (foldl (\<lambda>c dp. c\<lparr>cell_pending := f dp\<rparr>) c dps) = cell_available c"
    "cell_pending (foldl (\<lambda>c dp. c\<lparr>cell_size := f dp\<rparr>) c dps) = cell_pending c"
    "cell_pending (foldl (\<lambda>c dp. c\<lparr>cell_available := f dp\<rparr>) c dps) = cell_pending c"
    for f :: "int DataPoint \<Rightarrow> string" and c dps
    by (induction dps arbitrary: c; simp)+
  from Cons.prems have m: "metric_Name m \<noteq> n" and ms: "\<forall>m \<in> set ms. metric_Name m \<noteq> n"
    by simp_all
  have step: "(n = ''db.pool.size'' \<longrightarrow> cell_size (pool_step c m) = cell_size c)
      \<and> (n = ''db.pool.available'' \<longrightarrow> cell_available (pool_step c m) = cell_available c)
      \<and> (n = ''db.pool.pending'' \<longrightarrow> cell_pending (pool_step c m) = cell_pending c)"
    using m by (auto simp: pool_step_def keep)
  show ?case
    using Cons.IH [OF ms, of "pool_step c m"] step by simp
qed












subsection \<open>Span renderer: the sort\<close>












subsection \<open>Span renderer: grouping and output\<close>




lemma dom_foldl_add_span:
  "dom (foldl add_span g spans) = dom g \<union> span_TraceID ` set spans"
proof (induction spans arbitrary: g)
  case Nil
  show ?case by simp
next
  case (Cons s spans)
  have "dom (add_span g s) = insert (span_TraceID s) (dom g)"
    by (simp add: add_span_def)
  then show ?case
    using Cons.IH [of "add_span g s"] by simp
qed

lemma dom_traceGroups: "dom (traceGroups spans) = span_TraceID ` set spans"
  by (simp add: traceGroups_def dom_foldl_add_span)

lemma headers_formatSpanHierarchy: "headers (formatSpanHierarchy xs d) = []"
proof -
  have "concat (map line_header (map (\<lambda>attr. AttrLine d (fst attr) (AsString (snd attr))) as)) = []"
    for as :: "(string \<times> attr_value) list"
    by (induction as) simp_all
  then show ?thesis
    by (induction xs) (simp_all add: headers_def formatSpanHierarchy_def)
qed


lemma headers_append: "headers (xs @ ys) = headers xs @ headers ys"
  by (simp add: headers_def)


lemma headers_trace_block: "headers (trace_block g k) = [take 8 k]"
proof -
  have "headers [TraceHeader (take 8 k)] = [take 8 k]" "headers [BlankLine] = []"
    by (simp_all add: headers_def)
  then show ?thesis
    using headers_append [of "[TraceHeader (take 8 k)]"]
    by (simp add: trace_block_def Let_def headers_append headers_formatSpanHierarchy)
qed


lemma headers_concat_blocks:
  "headers (concat (map (trace_block g) ks)) = map (take 8) ks"
  by (induction ks) (simp_all add: headers_append headers_trace_block, simp add: headers_def)

lemma first_encounter_order_props:
  "distinct (first_encounter_order spans) \<and> set (first_encounter_order spans) = span_TraceID ` set spans"
proof -
  have "distinct seen \<Longrightarrow>
      distinct (foldl (\<lambda>seen s. if span_TraceID s \<in> set seen then seen else seen @ [span_TraceID s]) seen spans)
      \<and> set (foldl (\<lambda>seen s. if span_TraceID s \<in> set seen then seen else seen @ [span_TraceID s]) seen spans)
          = set seen \<union> span_TraceID ` set spans" for seen
    by (induction spans arbitrary: seen) auto
  from this [of "[]"] show ?thesis
    by (simp add: first_encounter_order_def)
qed

lemma first_encounter_order_possible:
  "range_order (traceGroups spans) (first_encounter_order spans)"
  by (simp add: range_order_def dom_traceGroups first_encounter_order_props)





text \<open>
  C3. For a batch that is not empty, in a run whose \<open>range\<close> visits the trace ids
  in \<open>order\<close>, the headers written are those of \<open>order\<close>, one for each trace id
  of the batch and none twice: as many headers as distinct trace ids. Their order is
  the order of the map iteration.
\<close>

theorem one_header_per_trace:
  "spans \<noteq> [] \<and> range_order (traceGroups spans) order \<longrightarrow>
     headers (Format_spans order spans) = map (take 8) order
   \<and> distinct order
   \<and> set order = span_TraceID ` set spans
   \<and> length (headers (Format_spans order spans)) = card (span_TraceID ` set spans)"
proof
  assume a: "spans \<noteq> [] \<and> range_order (traceGroups spans) order"
  then have d: "distinct order" and s: "set order = span_TraceID ` set spans"
    by (simp_all add: range_order_def dom_traceGroups)
  have h: "headers (Format_spans order spans) = map (take 8) order"
    using a by (simp add: Format_spans_def headers_concat_blocks)
  have "length order = card (span_TraceID ` set spans)"
    using d s distinct_card by metis
  with d s h show "headers (Format_spans order spans) = map (take 8) order
   \<and> distinct order
   \<and> set order = span_TraceID ` set spans
   \<and> length (headers (Format_spans order spans)) = card (span_TraceID ` set spans)"
    by simp
qed

theorem one_header_per_trace_witness:
  "sample_batch \<noteq> [] \<and> range_order (traceGroups sample_batch) [trace_A, trace_B]
   \<and> headers (Format_spans [trace_A, trace_B] sample_batch) = [''4bf92f35'', ''00f067aa'']
   \<and> card (span_TraceID ` set sample_batch) = 2"
proof -
  have a: "sample_batch \<noteq> [] \<and> range_order (traceGroups sample_batch) [trace_A, trace_B]"
    by (auto simp: range_order_def traceGroups_def sample_batch_def add_span_def span_at_def
          trace_A_def trace_B_def)
  note t = one_header_per_trace [of sample_batch "[trace_A, trace_B]", THEN mp, OF a]
  have h: "headers (Format_spans [trace_A, trace_B] sample_batch) = map (take 8) [trace_A, trace_B]"
    by (rule conjunct1 [OF t])
  have "length (headers (Format_spans [trace_A, trace_B] sample_batch))
           = card (span_TraceID ` set sample_batch)"
    by (rule conjunct2 [OF conjunct2 [OF conjunct2 [OF t]]])
  then have c: "card (span_TraceID ` set sample_batch) = 2"
    by (simp only: h) simp
  show ?thesis
    using a h c by (simp add: trace_A_def trace_B_def)
qed


text \<open>
  The order of first encounter is one of the orders a run can take, and not the only
  one: on the sample batch, whose first trace id is \<open>trace_A\<close>, a run that visits
  \<open>trace_B\<close> first writes the header of \<open>trace_B\<close> first.
\<close>

theorem headers_in_another_order:
  "sample_batch \<noteq> []
   \<and> range_order (traceGroups sample_batch) [trace_B, trace_A]
   \<and> first_encounter_order sample_batch = [trace_A, trace_B]
   \<and> headers (Format_spans [trace_B, trace_A] sample_batch) = [''00f067aa'', ''4bf92f35'']
   \<and> headers (Format_spans [trace_B, trace_A] sample_batch)
       \<noteq> map (take 8) (first_encounter_order sample_batch)"
proof -
  have a: "sample_batch \<noteq> []" "range_order (traceGroups sample_batch) [trace_B, trace_A]"
    by (auto simp: range_order_def traceGroups_def sample_batch_def add_span_def span_at_def
          trace_A_def trace_B_def)
  have f: "first_encounter_order sample_batch = [trace_A, trace_B]"
    by (simp add: first_encounter_order_def sample_batch_def span_at_def trace_A_def trace_B_def)
  have h: "headers (Format_spans [trace_B, trace_A] sample_batch) = map (take 8) [trace_B, trace_A]"
    using a headers_concat_blocks [of "traceGroups sample_batch" "[trace_B, trace_A]"]
    by (simp add: Format_spans_def)
  show ?thesis
    using a f h by (simp add: trace_A_def trace_B_def)
qed

end
